theory Spec2Isabelle
  imports Main
begin

section \<open>The host: instants, faults and effects\<close>

text \<open>
  \<^verbatim>\<open>Now.ts\<close> is JavaScript: every function may throw and may act on the world. A
  computation is therefore a function from the world to a result (a thrown fault on the
  left) and the world afterwards. The world holds the current instant, the trace of the
  effects that \<^verbatim>\<open>Now.ts\<close> can cause (an action begins executing, a behavior is read, a
  listener is installed on a stream), each stamped with the instant at which it
  happens, and the supply of identities for new streams.
\<close>

datatype error = TypeError | Failure nat

datatype event =
    Executed nat nat
  | Sampled nat nat
  | Listening nat nat

record world =
  now :: nat
  log :: "event list"
  fresh :: nat

type_synonym 'a js = "world \<Rightarrow> (error + 'a) \<times> world"

definition js_return :: "'a \<Rightarrow> 'a js" where
  "js_return a w = (Inr a, w)"

definition js_throw :: "error \<Rightarrow> 'a js" where
  "js_throw e w = (Inl e, w)"

definition js_bind :: "'a js \<Rightarrow> ('a \<Rightarrow> 'b js) \<Rightarrow> 'b js" where
  "js_bind m k w = (case m w of (Inl e, w') \<Rightarrow> (Inl e, w') | (Inr a, w') \<Rightarrow> k a w')"

definition emit :: "event \<Rightarrow> world \<Rightarrow> world" where
  "emit ev w = w\<lparr>log := log w @ [ev]\<rparr>"

text \<open>
  A callback registered now and invoked by the host at a later instant \<open>t\<close>: its effects
  are recorded with the instant \<open>t\<close>; the computation that registered it goes on at its
  own instant.
\<close>

definition at_instant :: "nat \<Rightarrow> 'a js \<Rightarrow> 'a js" where
  "at_instant t m w = (case m (w\<lparr>now := t\<rparr>) of (r, w') \<Rightarrow> (r, w'\<lparr>now := now w\<rparr>))"

section \<open>The collaborators of \<^verbatim>\<open>Now.ts\<close>\<close>

text \<open>
  Modelled from the spec: the host's asynchronous completion (\<^verbatim>\<open>Promise\<close>), which
  \<^verbatim>\<open>Now.ts\<close> only receives from \<^verbatim>\<open>runIO\<close> and creates in \<^verbatim>\<open>runNow\<close>. A promise is
  described by how it ends: never settled, fulfilled at an instant with a value, or
  rejected at an instant with a failure.
\<close>

datatype 'a Promise = Pending | Fulfilled nat 'a | Rejected nat error

text \<open>
  Modelled from the spec: the Action (\<^verbatim>\<open>IO\<close> of the library jabz, not in this
  repository), "a description of a side-effecting operation that, when executed, yields
  an asynchronous completion handle". An action has a name, under which its execution
  is recorded, and an outcome that may depend on the instant at which it is executed;
  the outcome gives the delay after which the completion arrives.
\<close>

datatype 'a completion = Completes nat 'a | Fails nat error | Hangs

datatype 'a IO = IO (io_name: nat) (io_outcome: "nat \<Rightarrow> 'a completion")

definition settles :: "nat \<Rightarrow> 'a completion \<Rightarrow> 'a Promise" where
  "settles t c =
     (case c of Completes d a \<Rightarrow> Fulfilled (t + d) a
              | Fails d e \<Rightarrow> Rejected (t + d) e
              | Hangs \<Rightarrow> Pending)"

definition runIO :: "'a IO \<Rightarrow> 'a Promise js" where
  "runIO io w =
     (Inr (settles (now w) (io_outcome io (now w))),
      emit (Executed (io_name io) (now w)) w)"

text \<open>
  Modelled from the spec: the Future of \<^verbatim>\<open>./Future\<close> (not among the sources), "a value
  that becomes available at most once, at an unknown later instant; supports mapping
  and one-shot subscription"; an action's failure is "turned into a failed Future". A
  future is described by its occurrence. A callback given to \<^verbatim>\<open>map\<close> or \<^verbatim>\<open>subscribe\<close>
  is invoked within the notification of the occurrence, and at once when the future has
  occurred already (its instant is not after the current one); it is not invoked for a
  future that fails or never occurs. When the future has occurred already, the callback
  runs within the call of \<^verbatim>\<open>map\<close>, and a fault it throws is thrown by that call. When
  the future occurs later, the call has returned before the callback runs: a fault
  thrown then leaves with the notification, and the mapped future has no occurrence.
\<close>

datatype 'a Future = Never | Occurs nat 'a | Failed nat error

definition fromPromise :: "'a Promise \<Rightarrow> 'a Future js" where
  "fromPromise p w =
     (Inr (case p of Pending \<Rightarrow> Never
                   | Fulfilled t a \<Rightarrow> Occurs (max t (now w)) a
                   | Rejected t e \<Rightarrow> Failed (max t (now w)) e), w)"

fun Future_map :: "('a \<Rightarrow> 'b js) \<Rightarrow> 'a Future \<Rightarrow> 'b Future js" where
  "Future_map f Never w = (Inr Never, w)"
| "Future_map f (Failed t e) w = (Inr (Failed (max t (now w)) e), w)"
| "Future_map f (Occurs t a) w =
     (case at_instant (max t (now w)) (f a) w of
        (Inl e, w') \<Rightarrow> (if t \<le> now w then (Inl e, w') else (Inr Never, w'))
      | (Inr b, w') \<Rightarrow> (Inr (Occurs (max t (now w)) b), w'))"

text \<open>
  Modelled from the spec: \<^verbatim>\<open>subscribe\<close> of the Future, "a subscription callback
  fired exactly once, at occurrence". Its value here is what the callback returned: one
  result for an occurrence, none otherwise. As for \<^verbatim>\<open>map\<close>, a fault thrown by the
  callback is thrown by the call when the future has occurred already, and leaves with
  the notification when the future occurs later.
\<close>

fun Future_subscribe :: "('a \<Rightarrow> 'b js) \<Rightarrow> 'a Future \<Rightarrow> 'b list js" where
  "Future_subscribe f Never w = (Inr [], w)"
| "Future_subscribe f (Failed t e) w = (Inr [], w)"
| "Future_subscribe f (Occurs t a) w =
     (case at_instant (max t (now w)) (f a) w of
        (Inl e, w') \<Rightarrow> (if t \<le> now w then (Inl e, w') else (Inr [], w'))
      | (Inr b, w') \<Rightarrow> (Inr [b], w'))"

text \<open>
  Modelled from the spec: the Behavior of \<^verbatim>\<open>./Behavior\<close> (not among the sources), "a
  continuous, time-varying value supporting synchronous current-value reads". A
  behavior has a name, under which a read is recorded, and a value at every instant;
  \<^verbatim>\<open>at\<close> reads the value at the current instant.
\<close>

datatype 'a Behavior = Behavior (b_name: nat) (b_value: "nat \<Rightarrow> 'a")

definition at :: "'a Behavior \<Rightarrow> 'a js" where
  "at b w = (Inr (b_value b (now w)), emit (Sampled (b_name b) (now w)) w)"

text \<open>
  Modelled from the spec: the Stream of \<^verbatim>\<open>./Stream\<close> (not among the sources), "a
  discrete, push-driven sequence of occurrences with listener-based delivery". A stream
  has an identity and is described by its occurrences, in the order of the pushes, each
  with its instant. Creating a stream takes a new identity. \<^verbatim>\<open>addListener\<close> records the
  installation; from then on the listener's \<^verbatim>\<open>push\<close> is invoked for every value at the
  instant it is pushed (pushes at the instant of the installation are taken to come
  after it; earlier ones are not delivered). A fault thrown by a listener leaves with
  the push and does not reach the one who installed the listener.
\<close>

datatype 'a Stream = Stream (s_name: nat) (occurrences: "(nat \<times> 'a) list")

definition new_Stream :: "nat js" where
  "new_Stream w = (Inr (fresh w), w\<lparr>fresh := Suc (fresh w)\<rparr>)"

fun deliver :: "('a \<Rightarrow> 'b list js) \<Rightarrow> (nat \<times> 'a) list \<Rightarrow> 'b list js" where
  "deliver push [] w = (Inr [], w)"
| "deliver push ((t, v) # rest) w =
     (if t < now w then deliver push rest w
      else case at_instant t (push v) w of
             (Inl e, w') \<Rightarrow> deliver push rest w'
           | (Inr bs, w') \<Rightarrow> js_bind (deliver push rest) (\<lambda>cs. js_return (bs @ cs)) w')"

definition Stream_addListener :: "'a Stream \<Rightarrow> ('a \<Rightarrow> 'b list js) \<Rightarrow> 'b list js" where
  "Stream_addListener s push w =
     deliver push (occurrences s) (emit (Listening (s_name s) (now w)) w)"

text \<open>
  Modelled from the spec: creating a promise (\<^verbatim>\<open>new Promise(executor)\<close>) runs the
  executor at once with the promise's two settling functions. \<^verbatim>\<open>reject(e)\<close> rejects
  the promise. \<^verbatim>\<open>resolve(v)\<close> fulfils it with \<^verbatim>\<open>v\<close>, unless \<^verbatim>\<open>v\<close> is a thenable (a
  promise, say): then the promise follows \<^verbatim>\<open>v\<close> and ends as \<^verbatim>\<open>v\<close> ends, rejected
  when \<^verbatim>\<open>v\<close> is rejected. Which values are thenables, and how each ends, is not decided
  by \<^verbatim>\<open>Now.ts\<close>: it is the parameter \<open>thenable\<close>. The promise ends as the earliest
  call of one of the two functions says (the first of several at one instant); it is
  rejected when the executor itself throws; otherwise it stays pending. The executor's
  value here is the list of the calls it causes.
\<close>

datatype 'a settlement = Settlement (instant: nat) (outcome: "'a Promise")

fun follow :: "nat \<Rightarrow> 'a Promise \<Rightarrow> 'a Promise" where
  "follow t Pending = Pending"
| "follow t (Fulfilled t' x) = Fulfilled (max t t') x"
| "follow t (Rejected t' e) = Rejected (max t t') e"

definition Promise_resolve :: "('a \<Rightarrow> 'a Promise option) \<Rightarrow> 'a \<Rightarrow> 'a settlement js" where
  "Promise_resolve thenable v w =
     (Inr (Settlement (now w)
        (case thenable v of None \<Rightarrow> Fulfilled (now w) v | Some p \<Rightarrow> follow (now w) p)), w)"

definition Promise_reject :: "error \<Rightarrow> 'a settlement js" where
  "Promise_reject e w = (Inr (Settlement (now w) (Rejected (now w) e)), w)"

fun earliest :: "'a settlement \<Rightarrow> 'a settlement list \<Rightarrow> 'a settlement" where
  "earliest c [] = c"
| "earliest c (d # ds) = earliest (if instant d < instant c then d else c) ds"

fun settled :: "'a settlement list \<Rightarrow> 'a Promise" where
  "settled [] = Pending"
| "settled (c # cs) = outcome (earliest c cs)"

definition new_Promise ::
  "('a \<Rightarrow> 'a Promise option)
    \<Rightarrow> (('a \<Rightarrow> 'a settlement js) \<Rightarrow> (error \<Rightarrow> 'a settlement js) \<Rightarrow> 'a settlement list js)
    \<Rightarrow> 'a Promise js" where
  "new_Promise thenable executor w =
     (case executor (Promise_resolve thenable) Promise_reject w of
        (Inl e, w') \<Rightarrow> (Inr (Rejected (now w) e), w')
      | (Inr calls, w') \<Rightarrow> (Inr (settled calls), w'))"

section \<open>The Now monad (\<^verbatim>\<open>src/Now.ts\<close>)\<close>

text \<open>
  \<^verbatim>\<open>abstract class Now<A> { abstract run(): A; ... }\<close>: an object of the class is
  what its \<^verbatim>\<open>run\<close> method does. Building the object and calling \<^verbatim>\<open>run\<close> on it are
  different acts: the first is a value of type \<open>'a Now\<close>, the second the computation
  \<open>run n\<close>.
\<close>

datatype 'a Now = Now (run: "'a js")

text \<open>\<^verbatim>\<open>class OfNow { run() { return this.value; } }\<close>\<close>

definition OfNow :: "'a \<Rightarrow> 'a Now" where
  "OfNow v = Now (js_return v)"

text \<open>\<^verbatim>\<open>class ChainNow { run() { return this.f(this.first.run()).run(); } }\<close>\<close>

definition ChainNow :: "'a Now \<Rightarrow> ('a \<Rightarrow> 'b Now js) \<Rightarrow> 'b Now" where
  "ChainNow first f = Now (js_bind (run first) (\<lambda>a. js_bind (f a) run))"

text \<open>
  The methods \<^verbatim>\<open>of\<close>, \<^verbatim>\<open>chain\<close>, \<^verbatim>\<open>flatten\<close>, \<^verbatim>\<open>map\<close> and \<^verbatim>\<open>mapTo\<close> of the
  class. Each returns a new object; \<^verbatim>\<open>flatten\<close> and \<^verbatim>\<open>mapTo\<close> do not use all of
  their arguments.
\<close>

definition of_now :: "'b \<Rightarrow> 'b Now js" where
  "of_now b = js_return (OfNow b)"

definition chain :: "'a Now \<Rightarrow> ('a \<Rightarrow> 'b Now js) \<Rightarrow> 'b Now js" where
  "chain this f = js_return (ChainNow this f)"

definition flatten :: "'a Now \<Rightarrow> 'a Now Now \<Rightarrow> 'a Now js" where
  "flatten this nn = chain nn (\<lambda>n. js_return n)"

definition map_now :: "'a Now \<Rightarrow> ('a \<Rightarrow> 'b js) \<Rightarrow> 'b Now js" where
  "map_now this f = chain this (\<lambda>a. js_bind (f a) of_now)"

definition mapTo :: "'a Now \<Rightarrow> 'b \<Rightarrow> 'b Now js" where
  "mapTo this b = chain this (\<lambda>_. of_now b)"

text \<open>
  \<^verbatim>\<open>lift(f: Function, ...ms: any[])\<close>. A JavaScript function has a declared parameter
  count (\<^verbatim>\<open>f.length\<close>) and is called with a list of arguments. \<^verbatim>\<open>ms[i]\<close> beyond the
  end of the arguments is \<^verbatim>\<open>undefined\<close>, and reading a property of \<^verbatim>\<open>undefined\<close>
  throws a \<^verbatim>\<open>TypeError\<close>. The \<^verbatim>\<open>switch\<close> has no default: for another parameter count
  the method ends without a \<^verbatim>\<open>return\<close>, and its value is \<^verbatim>\<open>undefined\<close> (\<open>None\<close>).
\<close>

datatype ('v, 'r) Function = Function (fn_length: nat) (call: "'v list \<Rightarrow> 'r js")

definition element :: "'a list \<Rightarrow> nat \<Rightarrow> 'a option" where
  "element ms i = (if i < length ms then Some (ms ! i) else None)"

definition member_of :: "'a option \<Rightarrow> 'a js" where
  "member_of v = (case v of None \<Rightarrow> js_throw TypeError | Some obj \<Rightarrow> js_return obj)"

definition lift :: "('v, 'r) Function \<Rightarrow> 'v Now list \<Rightarrow> 'r Now option js" where
  "lift f ms =
     js_bind (member_of (element ms 0)) (\<lambda>m0.
       if fn_length f = 1 then
         js_bind (map_now m0 (\<lambda>a. call f [a])) (\<lambda>n. js_return (Some n))
       else if fn_length f = 2 then
         js_bind
           (chain m0 (\<lambda>a.
              js_bind (member_of (element ms 1)) (\<lambda>m1.
                chain m1 (\<lambda>b. js_bind (call f [a, b]) of_now))))
           (\<lambda>n. js_return (Some n))
       else if fn_length f = 3 then
         js_bind
           (chain m0 (\<lambda>a.
              js_bind (member_of (element ms 1)) (\<lambda>m1.
                chain m1 (\<lambda>b.
                  js_bind (member_of (element ms 2)) (\<lambda>m2.
                    chain m2 (\<lambda>c. js_bind (call f [a, b, c]) of_now))))))
           (\<lambda>n. js_return (Some n))
       else js_return None)"

text \<open>\<^verbatim>\<open>class AsyncNow { run() { return fromPromise(runIO(this.comp)); } }\<close> and \<^verbatim>\<open>async\<close>.\<close>

definition AsyncNow :: "'a IO \<Rightarrow> 'a Future Now" where
  "AsyncNow io = Now (js_bind (runIO io) fromPromise)"

definition async :: "'a IO \<Rightarrow> 'a Future Now js" where
  "async io = js_return (AsyncNow io)"

text \<open>\<^verbatim>\<open>class SampleNow { run() { return at(this.b); } }\<close> and \<^verbatim>\<open>sample\<close>.\<close>

definition SampleNow :: "'a Behavior \<Rightarrow> 'a Now" where
  "SampleNow b = Now (at b)"

definition sample :: "'a Behavior \<Rightarrow> 'a Now js" where
  "sample b = js_return (SampleNow b)"

text \<open>
  \<^verbatim>\<open>function run(now) { return now.run(); }\<close>,
  \<^verbatim>\<open>class PlanNow { run() { return this.future.map(run); } }\<close> and \<^verbatim>\<open>plan\<close>.
\<close>

definition run_fn :: "'a Now \<Rightarrow> 'a js" where
  "run_fn n = run n"

definition PlanNow :: "'a Now Future \<Rightarrow> 'a Future Now" where
  "PlanNow future = Now (Future_map run_fn future)"

definition plan :: "'a Now Future \<Rightarrow> 'a Future Now js" where
  "plan future = js_return (PlanNow future)"

text \<open>
  \<^verbatim>\<open>class PerformIOStream extends Stream\<close>: the constructor creates the stream
  (\<^verbatim>\<open>super()\<close>) and adds it as a listener to \<^verbatim>\<open>s\<close>; its
  \<^verbatim>\<open>push(io) { runIO(io).then((a) => this.child.push(a)); }\<close> executes the action, and
  the continuation given to \<^verbatim>\<open>then\<close> pushes the value into the stream when the promise
  is fulfilled (a promise that is rejected or stays pending pushes nothing). The
  occurrences of the stream are these pushes, in the order of their instants.
\<close>

definition then_push :: "'a Promise \<Rightarrow> (nat \<times> 'a) list" where
  "then_push p = (case p of Fulfilled t a \<Rightarrow> [(t, a)] | Rejected t e \<Rightarrow> [] | Pending \<Rightarrow> [])"

definition PerformIOStream_push :: "'a IO \<Rightarrow> (nat \<times> 'a) list js" where
  "PerformIOStream_push io = js_bind (runIO io) (\<lambda>p. js_return (then_push p))"

definition PerformIOStream :: "'a IO Stream \<Rightarrow> 'a Stream js" where
  "PerformIOStream s =
     js_bind new_Stream (\<lambda>name.
       js_bind (Stream_addListener s PerformIOStream_push) (\<lambda>pushed.
         js_return (Stream name (sort_key fst pushed))))"

text \<open>
  \<^verbatim>\<open>class PerformStreamNow { run() { return new PerformIOStream(this.s); } }\<close> and
  \<^verbatim>\<open>performStream\<close>.
\<close>

definition PerformStreamNow :: "'a IO Stream \<Rightarrow> 'a Stream Now" where
  "PerformStreamNow s = Now (PerformIOStream s)"

definition performStream :: "'a IO Stream \<Rightarrow> 'a Stream Now js" where
  "performStream s = js_return (PerformStreamNow s)"

text \<open>
  \<^verbatim>\<open>runNow(now) { return new Promise((resolve, reject) => { now.run().subscribe(resolve); }); }\<close>
  The parameter \<open>thenable\<close> is the host's, as for \<^verbatim>\<open>new Promise\<close>.
\<close>

definition runNow :: "('a \<Rightarrow> 'a Promise option) \<Rightarrow> 'a Future Now \<Rightarrow> 'a Promise js" where
  "runNow thenable n =
     new_Promise thenable
       (\<lambda>resolve reject. js_bind (run n) (\<lambda>future. Future_subscribe resolve future))"

section \<open>Inputs of the examples\<close>

text \<open>
  The world in which the examples start, the combining functions of the test
  "lifts over constant now" (\<^verbatim>\<open>(n) => n * n\<close>, \<^verbatim>\<open>(n, m) => n + m\<close>,
  \<^verbatim>\<open>(n, m, p) => n + m + p\<close>), a function that declares no parameter, an action that
  completes four instants after it is started, and an action that fails.
\<close>

definition start :: world where
  "start = \<lparr>now = 0, log = [], fresh = 0\<rparr>"




definition constant0 :: "(int, int) Function" where
  "constant0 = Function 0 (\<lambda>xs. js_return 0)"

definition slow_action :: "int IO" where
  "slow_action = IO 1 (\<lambda>t. Completes 4 7)"

definition failing_action :: "int IO" where
  "failing_action = IO 7 (\<lambda>t. Fails 1 (Failure 3))"

text \<open>The values of the examples are numbers: none of them is a thenable.\<close>

definition plain :: "int \<Rightarrow> int Promise option" where
  "plain v = None"

text \<open>
  The inputs of the tests of \<^verbatim>\<open>async\<close>, \<^verbatim>\<open>sample\<close>, \<^verbatim>\<open>plan\<close> and
  \<^verbatim>\<open>performStream\<close>: actions that complete with 12 and with 11, the constant behavior
  6, the action \<^verbatim>\<open>impure\<close> that adds 2 and completes at once, the three pushes of
  the stream test, and the program of the test of \<^verbatim>\<open>plan\<close>,
  \<^verbatim>\<open>async(fn()).chain(e => plan(e.map(comp)).chain(e2 => Now.of(e2)))\<close> with
  \<^verbatim>\<open>comp(n) = Now.of(n * 2)\<close>.
\<close>

definition resolves_12 :: "int IO" where
  "resolves_12 = IO 2 (\<lambda>t. Completes 1 12)"

definition resolves_11 :: "int IO" where
  "resolves_11 = IO 3 (\<lambda>t. Completes 1 11)"

definition constant_6 :: "int Behavior" where
  "constant_6 = Behavior 4 (\<lambda>t. 6)"

definition impure :: "int \<Rightarrow> int IO" where
  "impure n = IO (nat n) (\<lambda>t. Completes 0 (n + 2))"

definition pushes_1_2_3 :: "int IO Stream" where
  "pushes_1_2_3 = Stream 0 [(0, impure 1), (1, impure 2), (2, impure 3)]"

definition plan_prog :: "int Future Now" where
  "plan_prog =
     ChainNow (AsyncNow resolves_11) (\<lambda>e.
       js_bind (Future_map (\<lambda>n. of_now (n * 2)) e) (\<lambda>planned.
         js_bind (plan planned) (\<lambda>p. chain p (\<lambda>e2. of_now e2))))"

section \<open>Laws of the host monad\<close>

lemma js_bind_return_left: "js_bind (js_return a) k = k a"
  by (rule ext) (simp add: js_bind_def js_return_def)

lemma js_bind_return_right: "js_bind m js_return = m"
  by (rule ext) (simp add: js_bind_def js_return_def split: prod.split sum.split)

lemma js_bind_assoc: "js_bind (js_bind m k) h = js_bind m (\<lambda>a. js_bind (k a) h)"
  by (rule ext) (simp add: js_bind_def split: prod.split sum.split)

lemma js_bind_throw: "js_bind (js_throw e) k = js_throw e"
  by (rule ext) (simp add: js_bind_def js_throw_def)

lemma run_OfNow: "run (OfNow v) = js_return v"
  by (simp add: OfNow_def)

lemma run_ChainNow: "run (ChainNow first f) = js_bind (run first) (\<lambda>a. js_bind (f a) run)"
  by (simp add: ChainNow_def)

section \<open>The monad laws\<close>

text \<open>
  C2. Up to evaluation, \<^verbatim>\<open>of\<close> and \<^verbatim>\<open>chain\<close> obey the three monad laws: building
  \<^verbatim>\<open>of(a).chain(f)\<close> and running it is running \<^verbatim>\<open>f(a)\<close>; building \<^verbatim>\<open>m.chain(of)\<close>
  and running it is running \<^verbatim>\<open>m\<close>; building \<^verbatim>\<open>m.chain(f).chain(g)\<close> and running it is
  building and running \<^verbatim>\<open>m.chain(a => f(a).chain(g))\<close>. Results, thrown faults and
  effects agree.
\<close>

theorem now_monad_laws:
  "js_bind (of_now a) (\<lambda>m. js_bind (chain m f) run) = js_bind (f a) run
   \<and> js_bind (chain m of_now) run = run m
   \<and> js_bind (chain m f) (\<lambda>m1. js_bind (chain m1 g) run)
       = js_bind (chain m (\<lambda>a. js_bind (f a) (\<lambda>n. chain n g))) run"
proof (intro conjI)
  show "js_bind (of_now a) (\<lambda>m. js_bind (chain m f) run) = js_bind (f a) run"
    by (simp add: of_now_def chain_def js_bind_return_left run_ChainNow run_OfNow)
next
  have e: "(\<lambda>a. js_bind (of_now a) run) = js_return"
    by (rule ext) (simp add: of_now_def js_bind_return_left run_OfNow)
  have "js_bind (run m) (\<lambda>a. js_bind (of_now a) run) = run m"
    unfolding e by (rule js_bind_return_right)
  then show "js_bind (chain m of_now) run = run m"
    by (simp add: chain_def js_bind_return_left run_ChainNow)
next
  show "js_bind (chain m f) (\<lambda>m1. js_bind (chain m1 g) run)
     = js_bind (chain m (\<lambda>a. js_bind (f a) (\<lambda>n. chain n g))) run"
    by (simp add: chain_def js_bind_return_left run_ChainNow js_bind_assoc)
qed

section \<open>Flattening\<close>

text \<open>
  C10. \<^verbatim>\<open>m.flatten(nn)\<close> builds a computation and evaluates nothing. Running that
  computation is running \<^verbatim>\<open>nn\<close> and then running the computation it yields. The
  receiver \<^verbatim>\<open>m\<close> is not evaluated and does not matter: any other receiver gives the
  same.
\<close>

theorem flatten_runs_argument_only:
  "(\<exists>n. flatten m nn w = (Inr n, w) \<and> run n = js_bind (run nn) run)
   \<and> js_bind (flatten m nn) run = js_bind (run nn) run
   \<and> flatten m nn = flatten m' nn"
proof (intro conjI)
  have "run (ChainNow nn js_return) = js_bind (run nn) run"
    by (simp add: run_ChainNow js_bind_return_left)
  moreover have "flatten m nn w = (Inr (ChainNow nn js_return), w)"
    by (simp add: flatten_def chain_def js_return_def [abs_def])
  ultimately show "\<exists>n. flatten m nn w = (Inr n, w) \<and> run n = js_bind (run nn) run"
    by blast
next
  show "js_bind (flatten m nn) run = js_bind (run nn) run"
    by (simp add: flatten_def chain_def js_bind_return_left run_ChainNow)
next
  show "flatten m nn = flatten m' nn"
    by (simp add: flatten_def)
qed

section \<open>Sampling a behavior\<close>

text \<open>
  C5. \<^verbatim>\<open>sample(b)\<close> builds a computation and reads nothing. Evaluating that
  computation, in whatever world, reads the current value of \<^verbatim>\<open>b\<close> and returns that
  value itself, at once: the result is the value of the behavior at the instant of the
  run, the instant is unchanged, and the read is all that happened.
\<close>

theorem sample_reads_current_value:
  "sample b w = (Inr (SampleNow b), w)
   \<and> run (SampleNow b) w'
       = (Inr (b_value b (now w')), w'\<lparr>log := log w' @ [Sampled (b_name b) (now w')]\<rparr>)"
  by (simp add: sample_def js_return_def SampleNow_def at_def emit_def)

section \<open>Executing an action\<close>

text \<open>
  C6. Building \<^verbatim>\<open>async(a)\<close> executes nothing. Running it begins executing \<^verbatim>\<open>a\<close>
  exactly once, at the instant of the run, and returns at once the Future of the
  action's completion: it occurs with the action's value when the completion arrives.
\<close>

theorem async_begins_action_at_run:
  "async io w = (Inr (AsyncNow io), w)
   \<and> run (AsyncNow io) w
       = (Inr (case io_outcome io (now w) of
                 Completes d a \<Rightarrow> Occurs (now w + d) a
               | Fails d e \<Rightarrow> Failed (now w + d) e
               | Hangs \<Rightarrow> Never),
          w\<lparr>log := log w @ [Executed (io_name io) (now w)]\<rparr>)"
  by (simp add: async_def js_return_def AsyncNow_def js_bind_def runIO_def fromPromise_def
      settles_def emit_def split: completion.split)

section \<open>Lifting a function\<close>





lemma lift_no_effect: "snd (lift f ms w) = w"
  by (cases ms)
    (simp_all add: lift_def element_def member_of_def js_bind_def js_throw_def js_return_def
      map_now_def chain_def)



text \<open>
  C3, as the code has it. For a function whose declared parameter count is outside
  1 to 3, \<^verbatim>\<open>lift\<close> signals an error only when it is given no computation at all (reading
  \<^verbatim>\<open>of\<close> from \<^verbatim>\<open>ms[0]\<close> throws a \<^verbatim>\<open>TypeError\<close>); given at least one, it returns
  \<^verbatim>\<open>undefined\<close> and signals nothing. In both cases it has no effect.
\<close>

theorem lift_unsupported_arity:
  assumes "fn_length f = 0 \<or> 3 < fn_length f"
  shows "lift f ms w = (case ms of [] \<Rightarrow> (Inl TypeError, w) | m # rest \<Rightarrow> (Inr None, w))"
  using assms
  by (cases ms)
    (auto simp add: lift_def element_def member_of_def js_bind_def js_throw_def js_return_def)

theorem lift_unsupported_arity_witness:
  "(fn_length constant0 = 0 \<or> 3 < fn_length constant0)
   \<and> lift constant0 [OfNow 1] start = (Inr None, start)
   \<and> lift constant0 [] start = (Inl TypeError, start)"
  using lift_unsupported_arity [of constant0 "[OfNow 1]" start]
    lift_unsupported_arity [of constant0 "[]" start]
  by (simp add: constant0_def)

text \<open>
  C3 as stated fails: with a function that declares no parameter and one computation,
  \<^verbatim>\<open>lift\<close> throws nothing; it returns \<^verbatim>\<open>undefined\<close>.
\<close>

theorem lift_fails_fast_counterexample:
  "fst (lift constant0 [OfNow 1] start) = Inr None"
  by (simp add: lift_def element_def member_of_def js_bind_def js_return_def constant0_def)

section \<open>Construction has no effect\<close>

text \<open>
  C7. Building a computation with \<^verbatim>\<open>of\<close>, \<^verbatim>\<open>chain\<close>, \<^verbatim>\<open>map\<close>, \<^verbatim>\<open>mapTo\<close>,
  \<^verbatim>\<open>flatten\<close>, \<^verbatim>\<open>lift\<close>, \<^verbatim>\<open>async\<close>, \<^verbatim>\<open>sample\<close>, \<^verbatim>\<open>plan\<close> or \<^verbatim>\<open>performStream\<close>
  leaves the world as it was: no action is executed, no behavior is read and no
  listener is installed.
\<close>

theorem construction_is_pure:
  "snd (of_now a w) = w
   \<and> snd (chain m f w) = w
   \<and> snd (map_now m g w) = w
   \<and> snd (mapTo m b w) = w
   \<and> snd (flatten m nn w) = w
   \<and> snd (lift fn ms w) = w
   \<and> snd (async io w) = w
   \<and> snd (sample bh w) = w
   \<and> snd (plan fut w) = w
   \<and> snd (performStream s w) = w"
  by (simp add: lift_no_effect of_now_def chain_def map_now_def mapTo_def flatten_def async_def
      sample_def plan_def performStream_def js_return_def)

section \<open>Planning\<close>

lemma run_PlanNow_Occurs:
  "run (PlanNow (Occurs t n)) w =
     (case run n (w\<lparr>now := max t (now w)\<rparr>) of
        (Inl e, w') \<Rightarrow>
          (if t \<le> now w then (Inl e, w'\<lparr>now := now w\<rparr>) else (Inr Never, w'\<lparr>now := now w\<rparr>))
      | (Inr a, w') \<Rightarrow> (Inr (Occurs (max t (now w)) a), w'\<lparr>now := now w\<rparr>))"
  by (simp add: PlanNow_def run_fn_def at_instant_def split: prod.split sum.split)

lemma run_PlanNow_other:
  "run (PlanNow Never) w = (Inr Never, w)"
  "run (PlanNow (Failed t e)) w = (Inr (Failed (max t (now w)) e), w)"
  by (simp_all add: PlanNow_def)

text \<open>
  A fault of the carried computation: when \<^verbatim>\<open>F\<close> has occurred already, the computation
  is evaluated within \<^verbatim>\<open>plan(F).run()\<close>, which throws what the computation throws.
\<close>

lemma plan_of_occurred_future_throws:
  "run (PlanNow (Occurs 0 (Now (js_throw TypeError)))) start = (Inl TypeError, start)"
  by (simp add: run_PlanNow_Occurs js_throw_def start_def)

text \<open>
  C1, as the code has it. Building \<^verbatim>\<open>plan(F)\<close> has no effect. Running it does not wait
  for \<^verbatim>\<open>F\<close>: when \<^verbatim>\<open>F\<close> never occurs it returns a Future that never occurs, and when
  \<^verbatim>\<open>F\<close> has not occurred yet it returns a Future whatever the carried computation
  does. Whenever the evaluation of the carried computation at the instant of \<^verbatim>\<open>F\<close>'s
  occurrence (the instant of the run when \<^verbatim>\<open>F\<close> has occurred before) returns a result,
  the returned Future occurs at that instant with that result as its value; a result
  that is itself a Future is that value and is not awaited. The returned Future occurs
  only so: only once \<^verbatim>\<open>F\<close> has occurred and the carried computation has been evaluated
  at that instant, with the result of that evaluation. When \<^verbatim>\<open>F\<close> occurs with
  \<^verbatim>\<open>Now.of(11 * 2)\<close>, the returned Future occurs with 22.
\<close>

theorem plan_occurs_with_its_future:
  "plan F w = (Inr (PlanNow F), w)
   \<and> run (PlanNow Never) w' = (Inr Never, w')
   \<and> (now w' < t \<longrightarrow> (\<exists>out w''. run (PlanNow (Occurs t n)) w' = (Inr out, w'')))
   \<and> (run n (w'\<lparr>now := max t (now w')\<rparr>) = (Inr a, w'') \<longrightarrow>
        run (PlanNow (Occurs t n)) w'
          = (Inr (Occurs (max t (now w')) a), w''\<lparr>now := now w'\<rparr>))
   \<and> (run (PlanNow F) w' = (Inr (Occurs t' v), w'') \<longrightarrow>
        (\<exists>t n. F = Occurs t n \<and> t' = max t (now w')
           \<and> fst (run n (w'\<lparr>now := t'\<rparr>)) = Inr v))
   \<and> run (PlanNow (Occurs t (OfNow (11 * 2 :: int)))) w' = (Inr (Occurs (max t (now w')) 22), w')"
proof (intro conjI impI)
  show "plan F w = (Inr (PlanNow F), w)"
    by (simp add: plan_def js_return_def)
next
  show "run (PlanNow Never) w' = (Inr Never, w')"
    by (rule run_PlanNow_other)
next
  assume "now w' < t"
  then show "\<exists>out w''. run (PlanNow (Occurs t n)) w' = (Inr out, w'')"
    by (simp add: run_PlanNow_Occurs split: prod.split sum.split)
next
  assume "run n (w'\<lparr>now := max t (now w')\<rparr>) = (Inr a, w'')"
  then show "run (PlanNow (Occurs t n)) w'
      = (Inr (Occurs (max t (now w')) a), w''\<lparr>now := now w'\<rparr>)"
    by (simp add: run_PlanNow_Occurs)
next
  assume r: "run (PlanNow F) w' = (Inr (Occurs t' v), w'')"
  show "\<exists>t n. F = Occurs t n \<and> t' = max t (now w') \<and> fst (run n (w'\<lparr>now := t'\<rparr>)) = Inr v"
  proof (cases F)
    case Never
    with r show ?thesis by (simp add: run_PlanNow_other)
  next
    case (Failed t e)
    with r show ?thesis by (simp add: run_PlanNow_other)
  next
    case (Occurs t n)
    with r have "t' = max t (now w') \<and> fst (run n (w'\<lparr>now := max t (now w')\<rparr>)) = Inr v"
      by (auto simp add: run_PlanNow_Occurs split: prod.splits sum.splits if_splits)
    with Occurs show ?thesis by simp
  qed
next
  show "run (PlanNow (Occurs t (OfNow (11 * 2 :: int)))) w' = (Inr (Occurs (max t (now w')) 22), w')"
    by (simp add: run_PlanNow_Occurs run_OfNow js_return_def)
qed

text \<open>
  At a payload that reads a behavior: the Future occurring at instant 3 with
  \<^verbatim>\<open>sample(b)\<close> is planned at instant 0; the behavior is read at instant 3, and the
  returned Future occurs at 3 with the value read.
\<close>

theorem plan_occurs_with_its_future_witness:
  "now start < 3
   \<and> run (SampleNow constant_6) (start\<lparr>now := max 3 (now start)\<rparr>)
       = (Inr 6, start\<lparr>now := 3, log := [Sampled 4 3]\<rparr>)
   \<and> run (PlanNow (Occurs 3 (SampleNow constant_6))) start
       = (Inr (Occurs 3 6), start\<lparr>log := [Sampled 4 3]\<rparr>)
   \<and> fst (run (SampleNow constant_6) (start\<lparr>now := 3\<rparr>)) = Inr 6"
proof -
  have early: "now start < 3"
    by (simp add: start_def)
  have payload: "run (SampleNow constant_6) (start\<lparr>now := max 3 (now start)\<rparr>)
      = (Inr 6, start\<lparr>now := 3, log := [Sampled 4 3]\<rparr>)"
    by (simp add: SampleNow_def at_def emit_def constant_6_def start_def)
  note inst = plan_occurs_with_its_future
    [where n = "SampleNow constant_6" and t = 3 and w' = start and a = 6
       and w'' = "start\<lparr>now := 3, log := [Sampled 4 3]\<rparr>"
       and F = "Occurs 3 (SampleNow constant_6)" and t' = 3 and v = 6
       and w = start]
  from inst early obtain out w1
    where "run (PlanNow (Occurs 3 (SampleNow constant_6))) start = (Inr out, w1)"
    by blast
  from inst payload have planned: "run (PlanNow (Occurs 3 (SampleNow constant_6))) start
      = (Inr (Occurs (max 3 (now start)) 6),
         start\<lparr>now := 3, log := [Sampled 4 3]\<rparr>\<lparr>now := now start\<rparr>)"
    by blast
  then have planned': "run (PlanNow (Occurs 3 (SampleNow constant_6))) start
      = (Inr (Occurs 3 6), start\<lparr>log := [Sampled 4 3]\<rparr>)"
    by (simp add: start_def)
  note inst' = plan_occurs_with_its_future
    [where n = "SampleNow constant_6" and t = 3 and w' = start and a = 6
       and w'' = "start\<lparr>log := [Sampled 4 3]\<rparr>"
       and F = "Occurs 3 (SampleNow constant_6)" and t' = 3 and v = 6
       and w = start]
  from inst' planned'
  have "\<exists>t n. Occurs 3 (SampleNow constant_6) = Occurs t n \<and> 3 = max t (now start)
      \<and> fst (run n (start\<lparr>now := 3\<rparr>)) = Inr 6"
    by blast
  then have "fst (run (SampleNow constant_6) (start\<lparr>now := 3\<rparr>)) = Inr 6"
    by auto
  with early payload planned' show ?thesis
    by simp
qed

text \<open>
  C1 as stated fails. Let \<^verbatim>\<open>F\<close> occur at instant 5 with \<^verbatim>\<open>async(a)\<close>, where \<^verbatim>\<open>a\<close>
  completes four instants after it is started: the Future that \<^verbatim>\<open>plan(F)\<close> returns
  occurs at 5, and its value is a Future that occurs only at 9. Let \<^verbatim>\<open>F\<close> occur at 5
  with the computation of a Future that never occurs: the returned Future still occurs
  at 5.
\<close>

theorem plan_waits_for_result_counterexample:
  "run (PlanNow (Occurs 5 (AsyncNow slow_action))) start
     = (Inr (Occurs 5 (Occurs 9 7)), start\<lparr>log := [Executed 1 5]\<rparr>)
   \<and> run (PlanNow (Occurs 5 (OfNow (Never :: int Future)))) start
     = (Inr (Occurs 5 Never), start)"
  by (simp add: run_PlanNow_Occurs run_OfNow AsyncNow_def js_bind_def
      runIO_def fromPromise_def settles_def emit_def js_return_def start_def slow_action_def)

section \<open>The driver\<close>

lemma runNow_settles:
  "runNow thenable n w =
     (case run n w of
        (Inl e, w') \<Rightarrow> (Inr (Rejected (now w) e), w')
      | (Inr Never, w') \<Rightarrow> (Inr Pending, w')
      | (Inr (Failed t e), w') \<Rightarrow> (Inr Pending, w')
      | (Inr (Occurs t a), w') \<Rightarrow>
          (Inr (case thenable a of
                  None \<Rightarrow> Fulfilled (max t (now w')) a
                | Some p \<Rightarrow> follow (max t (now w')) p), w'))"
  by (simp add: runNow_def new_Promise_def js_bind_def at_instant_def Promise_resolve_def
      split: prod.split sum.split Future.split option.split)

text \<open>
  A value that the host takes for a thenable: when the Future occurs with a value that
  is a rejected promise, the promise of \<^verbatim>\<open>runNow\<close> follows it and is rejected, though
  \<^verbatim>\<open>now.run()\<close> returned.
\<close>

lemma runNow_follows_thenable:
  "run n w = (Inr (Occurs t a), w') \<Longrightarrow> thenable a = Some (Rejected t' e) \<Longrightarrow>
     runNow thenable n w = (Inr (Rejected (max (max t (now w')) t') e), w')"
  by (simp add: runNow_settles)

text \<open>
  C4, as the code has it. \<^verbatim>\<open>runNow\<close> gives \<^verbatim>\<open>subscribe\<close> the promise's \<^verbatim>\<open>resolve\<close>
  only and never calls \<^verbatim>\<open>reject\<close>. For the computation \<^verbatim>\<open>async(a)\<close> whose action
  fails, the promise that \<^verbatim>\<open>runNow\<close> returns is not rejected: it is never settled,
  whatever the host takes for a thenable. The action has been executed.
\<close>

theorem runNow_drops_action_failure:
  assumes "io_outcome io (now w) = Fails d e"
  shows "runNow thenable (AsyncNow io) w
      = (Inr Pending, w\<lparr>log := log w @ [Executed (io_name io) (now w)]\<rparr>)"
  using assms
  by (simp add: runNow_settles AsyncNow_def js_bind_def runIO_def fromPromise_def settles_def
      emit_def)

theorem runNow_drops_action_failure_witness:
  "io_outcome failing_action (now start) = Fails 1 (Failure 3)
   \<and> runNow plain (AsyncNow failing_action) start
       = (Inr Pending, start\<lparr>log := [Executed 7 0]\<rparr>)"
  using runNow_drops_action_failure [of failing_action start 1 "Failure 3" plain]
  by (simp add: start_def failing_action_def)

text \<open>
  C4 as stated fails: for the computation that wraps an action which fails, the promise
  that \<^verbatim>\<open>runNow\<close> returns is pending for ever, not rejected.
\<close>

theorem runNow_rejects_counterexample:
  "fst (runNow plain (AsyncNow failing_action) start) = Inr Pending"
  by (simp add: runNow_settles AsyncNow_def js_bind_def runIO_def fromPromise_def settles_def
      emit_def start_def failing_action_def)

section \<open>Performing a stream of actions\<close>

lemma at_instant_push:
  "at_instant t (PerformIOStream_push io) w =
     (Inr (then_push (settles t (io_outcome io t))),
      w\<lparr>log := log w @ [Executed (io_name io) t]\<rparr>)"
  by (simp add: at_instant_def PerformIOStream_push_def js_bind_def runIO_def js_return_def
      emit_def)

lemma then_push_settles:
  "then_push (settles t c) = [(t + d, a). Completes d a \<leftarrow> [c]]"
  by (simp add: then_push_def settles_def split: completion.split)

lemma deliver_push:
  "deliver PerformIOStream_push occs w =
     (Inr [(t + d, a). (t, io) \<leftarrow> occs, now w \<le> t, Completes d a \<leftarrow> [io_outcome io t]],
      w\<lparr>log := log w @ [Executed (io_name io) t. (t, io) \<leftarrow> occs, now w \<le> t]\<rparr>)"
proof (induction occs arbitrary: w)
  case Nil
  show ?case by simp
next
  case (Cons p occs)
  obtain t io where p: "p = (t, io)" by (cases p)
  show ?case
  proof (cases "t < now w")
    case True
    then show ?thesis by (simp add: p Cons.IH)
  next
    case False
    then show ?thesis
      by (simp add: p at_instant_push Cons.IH js_bind_def js_return_def then_push_settles)
  qed
qed

lemma run_PerformStreamNow:
  "run (PerformStreamNow s) w =
     (Inr (Stream (fresh w)
        (sort_key fst
           [(t + d, a). (t, io) \<leftarrow> occurrences s, now w \<le> t,
                        Completes d a \<leftarrow> [io_outcome io t]])),
      w\<lparr>fresh := Suc (fresh w),
        log := log w @ Listening (s_name s) (now w)
                 # [Executed (io_name io) t. (t, io) \<leftarrow> occurrences s, now w \<le> t]\<rparr>)"
  by (simp add: PerformStreamNow_def PerformIOStream_def
      js_bind_def new_Stream_def Stream_addListener_def deliver_push emit_def js_return_def)

text \<open>
  C9. \<^verbatim>\<open>performStream(s)\<close> builds a computation and installs nothing. Evaluating that
  computation, in a world where the stream \<^verbatim>\<open>s\<close> exists (its identity has been taken
  from the supply), creates and returns a brand-new stream: its identity is the next
  unused one, it is not the identity of \<^verbatim>\<open>s\<close>, and it is taken from the supply. The
  evaluation installs a listener on \<^verbatim>\<open>s\<close>. From then on, for every occurrence of
  \<^verbatim>\<open>s\<close> the action it carries is executed at the instant of the push, in the order of
  the pushes, and nothing else is executed; the occurrences of the new stream are
  exactly the values of the actions that complete, each at the instant its completion
  arrives.
\<close>

theorem performStream_executes_and_forwards:
  assumes "s_name s < fresh w'"
  shows "performStream s w = (Inr (PerformStreamNow s), w)
    \<and> (\<exists>out. run (PerformStreamNow s) w'
          = (Inr out,
             w'\<lparr>fresh := Suc (fresh w'),
                log := log w' @ Listening (s_name s) (now w')
                  # [Executed (io_name io) t. (t, io) \<leftarrow> occurrences s, now w' \<le> t]\<rparr>)
        \<and> s_name out = fresh w'
        \<and> s_name out \<noteq> s_name s
        \<and> occurrences out
            = sort_key fst
                [(t + d, a). (t, io) \<leftarrow> occurrences s, now w' \<le> t,
                             Completes d a \<leftarrow> [io_outcome io t]])"
proof
  show "performStream s w = (Inr (PerformStreamNow s), w)"
    by (simp add: performStream_def js_return_def)
next
  let ?out = "Stream (fresh w')
        (sort_key fst
           [(t + d, a). (t, io) \<leftarrow> occurrences s, now w' \<le> t,
                        Completes d a \<leftarrow> [io_outcome io t]])"
  have "run (PerformStreamNow s) w'
          = (Inr ?out,
             w'\<lparr>fresh := Suc (fresh w'),
                log := log w' @ Listening (s_name s) (now w')
                  # [Executed (io_name io) t. (t, io) \<leftarrow> occurrences s, now w' \<le> t]\<rparr>)"
    by (rule run_PerformStreamNow)
  moreover have "s_name ?out = fresh w'"
    by simp
  moreover from assms have "s_name ?out \<noteq> s_name s"
    by simp
  moreover have "occurrences ?out
            = sort_key fst
                [(t + d, a). (t, io) \<leftarrow> occurrences s, now w' \<le> t,
                             Completes d a \<leftarrow> [io_outcome io t]]"
    by simp
  ultimately show "\<exists>out. run (PerformStreamNow s) w'
          = (Inr out,
             w'\<lparr>fresh := Suc (fresh w'),
                log := log w' @ Listening (s_name s) (now w')
                  # [Executed (io_name io) t. (t, io) \<leftarrow> occurrences s, now w' \<le> t]\<rparr>)
        \<and> s_name out = fresh w'
        \<and> s_name out \<noteq> s_name s
        \<and> occurrences out
            = sort_key fst
                [(t + d, a). (t, io) \<leftarrow> occurrences s, now w' \<le> t,
                             Completes d a \<leftarrow> [io_outcome io t]]"
    by blast
qed

text \<open>
  At the stream of the test "runs io actions", which exists with identity 0: the new
  stream has identity 1, the actions 1, 2, 3 are executed at the instants of their
  pushes, and the new stream delivers 3, 4, 5.
\<close>

theorem performStream_executes_and_forwards_witness:
  "s_name pushes_1_2_3 < fresh (start\<lparr>fresh := 1\<rparr>)
   \<and> performStream pushes_1_2_3 start = (Inr (PerformStreamNow pushes_1_2_3), start)
   \<and> run (PerformStreamNow pushes_1_2_3) (start\<lparr>fresh := 1\<rparr>)
       = (Inr (Stream 1 [(0, 3), (1, 4), (2, 5)]),
          start\<lparr>fresh := 2,
                log := [Listening 0 0, Executed 1 0, Executed 2 1, Executed 3 2]\<rparr>)"
proof -
  have exists: "s_name pushes_1_2_3 < fresh (start\<lparr>fresh := 1\<rparr>)"
    by (simp add: pushes_1_2_3_def start_def)
  from performStream_executes_and_forwards [OF exists, of start]
  obtain out where built: "performStream pushes_1_2_3 start
        = (Inr (PerformStreamNow pushes_1_2_3), start)"
    and ran: "run (PerformStreamNow pushes_1_2_3) (start\<lparr>fresh := 1\<rparr>)
        = (Inr out,
           start\<lparr>fresh := 1\<rparr>\<lparr>fresh := Suc (fresh (start\<lparr>fresh := 1\<rparr>)),
              log := log (start\<lparr>fresh := 1\<rparr>)
                @ Listening (s_name pushes_1_2_3) (now (start\<lparr>fresh := 1\<rparr>))
                # [Executed (io_name io) t.
                     (t, io) \<leftarrow> occurrences pushes_1_2_3, now (start\<lparr>fresh := 1\<rparr>) \<le> t]\<rparr>)"
    and name: "s_name out = fresh (start\<lparr>fresh := 1\<rparr>)"
    and occs: "occurrences out
        = sort_key fst
            [(t + d, a). (t, io) \<leftarrow> occurrences pushes_1_2_3,
                         now (start\<lparr>fresh := 1\<rparr>) \<le> t,
                         Completes d a \<leftarrow> [io_outcome io t]]"
    by blast
  have "out = Stream 1 [(0, 3), (1, 4), (2, 5)]"
    using name occs
    by (cases out) (simp add: pushes_1_2_3_def impure_def start_def)
  with ran have "run (PerformStreamNow pushes_1_2_3) (start\<lparr>fresh := 1\<rparr>)
       = (Inr (Stream 1 [(0, 3), (1, 4), (2, 5)]),
          start\<lparr>fresh := 2,
                log := [Listening 0 0, Executed 1 0, Executed 2 1, Executed 3 2]\<rparr>)"
    by (simp add: pushes_1_2_3_def impure_def start_def)
  with exists built show ?thesis
    by simp
qed

section \<open>The assertions of the repository's tests\<close>

text \<open>
  The collaborators are modelled from the spec; the assertions of the repository's own
  tests of \<^verbatim>\<open>Now.ts\<close> hold of the model: \<^verbatim>\<open>runNow(async(...))\<close> resolves with 12,
  sampling the constant behavior resolves with 6, the planned program resolves with 22,
  \<^verbatim>\<open>Now.of(12).mapTo(4).run()\<close> is 4, flattening pure computations gives 12, and the
  stream of performed actions executes the actions 1, 2, 3 and delivers 3, 4, 5.
\<close>

lemmas evaluation =
  runNow_settles AsyncNow_def SampleNow_def PlanNow_def run_fn_def run_ChainNow run_OfNow
  of_now_def chain_def mapTo_def flatten_def plan_def js_bind_def js_return_def runIO_def
  fromPromise_def settles_def at_def emit_def at_instant_def start_def plain_def

lemma test_async_works_with_runNow:
  "runNow plain (AsyncNow resolves_12) start
     = (Inr (Fulfilled 1 12), start\<lparr>log := [Executed 2 0]\<rparr>)"
  by (simp add: evaluation resolves_12_def)

lemma test_samples_constant_behavior:
  "runNow plain (ChainNow (SampleNow constant_6) (\<lambda>n. of_now (Occurs 0 n))) start
     = (Inr (Fulfilled 0 6), start\<lparr>log := [Sampled 4 0]\<rparr>)"
  by (simp add: evaluation constant_6_def)

lemma test_executes_plan_asynchronously:
  "runNow plain plan_prog start = (Inr (Fulfilled 1 22), start\<lparr>log := [Executed 3 0]\<rparr>)"
  by (simp add: evaluation plan_prog_def resolves_11_def)

lemma test_mapTo:
  "js_bind (mapTo (OfNow (12::int)) (4::int)) run start = (Inr 4, start)"
  by (simp add: evaluation)

lemma test_can_flatten_pure_nows:
  "js_bind (flatten (OfNow (0::int)) (OfNow (OfNow (12::int)))) run start = (Inr 12, start)"
  by (simp add: evaluation)

lemma test_performStream_runs_io_actions:
  "js_bind (performStream pushes_1_2_3) run (start\<lparr>fresh := 1\<rparr>)
     = (Inr (Stream 1 [(0, 3), (1, 4), (2, 5)]),
        start\<lparr>fresh := 2, log := [Listening 0 0, Executed 1 0, Executed 2 1, Executed 3 2]\<rparr>)"
  by (simp add: performStream_def js_bind_return_left PerformStreamNow_def PerformIOStream_def
      js_bind_def new_Stream_def Stream_addListener_def emit_def js_return_def
      pushes_1_2_3_def impure_def start_def at_instant_def PerformIOStream_push_def runIO_def
      settles_def then_push_def)

end
